theory Spec2Isabelle
  imports Main "HOL-Library.AList"
begin

section \<open>Targets and extensions (core.ts)\<close>

text \<open>
  \<^verbatim>\<open>type Extension = '.tsx' | '.astro' | '.svelte'\<close> and
  \<^verbatim>\<open>type Target = 'react' | 'hono' | 'astro' | 'vue' | 'svelte'\<close> are unions of string
  literals; each becomes a datatype, and \<open>ext_text\<close> gives back the literal an
  extension stands for.
\<close>

datatype Extension = Tsx | AstroExt | SvelteExt

datatype Target = React | Hono | Astro | Vue | Svelte

fun ext_text :: "Extension \<Rightarrow> string" where
  "ext_text Tsx = ''.tsx''"
| "ext_text AstroExt = ''.astro''"
| "ext_text SvelteExt = ''.svelte''"

fun getExtension :: "Target \<Rightarrow> Extension" where
  "getExtension React = Tsx"
| "getExtension Hono = Tsx"
| "getExtension Astro = AstroExt"
| "getExtension Vue = Tsx"
| "getExtension Svelte = SvelteExt"

text \<open>
  A thrown JavaScript value: an instance of \<open>Error\<close> with its message, or any other
  value (kept as the text \<open>console.error\<close> prints for it).
\<close>

datatype js_error = JsError string | JsValue string

text \<open>\<open>getTarget\<close>: a switch on the string, whose default branch throws.\<close>

definition getTarget :: "string \<Rightarrow> js_error + Target" where
  "getTarget target =
     (if target = ''react'' then Inr React
      else if target = ''hono'' then Inr Hono
      else if target = ''astro'' then Inr Astro
      else if target = ''vue'' then Inr Vue
      else if target = ''svelte'' then Inr Svelte
      else Inl (JsError ''Invalid target option''))"

section \<open>The process and its file system\<close>

text \<open>
  What the program can change: the files of the working directory (path and content, an
  association list so that a directory can be listed), the lines written with
  \<open>console.error\<close> and \<open>console.log\<close>, and the rejections of promises that nobody
  handles. \<open>denied\<close> lists the paths on which the operating system refuses an operation:
  this is how an I/O failure enters the model.
\<close>

record world =
  files :: "(string \<times> string) list"
  denied :: "string list"
  stderr :: "string list"
  stdout :: "string list"
  unhandled :: "js_error list"

definition console_error :: "string \<Rightarrow> world \<Rightarrow> world" where
  "console_error line w = w\<lparr>stderr := stderr w @ [line]\<rparr>"

definition console_log :: "string \<Rightarrow> world \<Rightarrow> world" where
  "console_log line w = w\<lparr>stdout := stdout w @ [line]\<rparr>"

definition quoted :: "string \<Rightarrow> string" where
  "quoted p = [CHR 0x27] @ p @ [CHR 0x27]"

definition eacces :: "string \<Rightarrow> string \<Rightarrow> js_error" where
  "eacces syscall p = JsError (''EACCES: permission denied, '' @ syscall @ '' '' @ quoted p)"

definition enoent :: "string \<Rightarrow> string \<Rightarrow> js_error" where
  "enoent syscall p =
     JsError (''ENOENT: no such file or directory, '' @ syscall @ '' '' @ quoted p)"

definition existsSync :: "string \<Rightarrow> world \<Rightarrow> bool" where
  "existsSync p w = (map_of (files w) p \<noteq> None)"

definition readFile :: "string \<Rightarrow> world \<Rightarrow> js_error + string" where
  "readFile p w =
     (if p \<in> set (denied w) then Inl (eacces ''open'' p)
      else case map_of (files w) p of
             None \<Rightarrow> Inl (enoent ''open'' p)
           | Some text \<Rightarrow> Inr text)"

definition writeFile :: "string \<Rightarrow> string \<Rightarrow> world \<Rightarrow> js_error + world" where
  "writeFile p text w =
     (if p \<in> set (denied w) then Inl (eacces ''open'' p)
      else Inr (w\<lparr>files := AList.update p text (files w)\<rparr>))"

definition fs_unlink :: "string \<Rightarrow> world \<Rightarrow> js_error + world" where
  "fs_unlink p w =
     (if p \<in> set (denied w) then Inl (eacces ''unlink'' p)
      else if existsSync p w then Inr (w\<lparr>files := AList.delete p (files w)\<rparr>)
      else Inl (enoent ''unlink'' p))"

text \<open>
  How a promise settles. The model runs the asynchronous operations one after the other,
  each to its end at the place where the source starts it.
\<close>

datatype 'a settled = Fulfilled 'a | Rejected js_error

text \<open>\<open>Promise.all\<close>: the values of all, or the first rejection.\<close>

fun promise_all :: "'a settled list \<Rightarrow> 'a list settled" where
  "promise_all [] = Fulfilled []"
| "promise_all (Rejected e # ps) = Rejected e"
| "promise_all (Fulfilled x # ps) =
     (case promise_all ps of
        Fulfilled xs \<Rightarrow> Fulfilled (x # xs)
      | Rejected e \<Rightarrow> Rejected e)"

text \<open>\<^verbatim>\<open>.then(() => { return })\<close>\<close>

fun then_return :: "'a settled \<Rightarrow> unit settled" where
  "then_return (Fulfilled x) = Fulfilled ()"
| "then_return (Rejected e) = Rejected e"

text \<open>
  \<^verbatim>\<open>void p\<close>, and a call whose promise is dropped: the value is thrown away; a rejection
  stays with the process as an unhandled one.
\<close>

fun discard :: "'a settled \<Rightarrow> world \<Rightarrow> world" where
  "discard (Fulfilled x) w = w"
| "discard (Rejected e) w = w\<lparr>unhandled := unhandled w @ [e]\<rparr>"

section \<open>Strings: regular expressions and path.basename\<close>

text \<open>
  The two regular expressions of the program are a sequence of one-character atoms
  followed by \<open>$\<close>, without flags: they can only match the last characters of the
  string, so \<open>replace\<close> replaces that match or returns the string as it is. A dot
  matches every character but a line terminator. The replacement texts (an extension,
  \<open>.css\<close>) hold no \<open>$\<close>, so they are inserted as they are.
\<close>

datatype atom = Lit char | AnyChar

definition lineTerminator :: "char \<Rightarrow> bool" where
  "lineTerminator c = (c = CHR 0x0A \<or> c = CHR 0x0D)"

fun atom_match :: "atom \<Rightarrow> char \<Rightarrow> bool" where
  "atom_match (Lit a) c = (a = c)"
| "atom_match AnyChar c = (\<not> lineTerminator c)"

definition replace_at_end :: "atom list \<Rightarrow> string \<Rightarrow> string \<Rightarrow> string" where
  "replace_at_end re s r =
     (if length re \<le> length s \<and> list_all2 atom_match re (drop (length s - length re) s)
      then take (length s - length re) s @ r
      else s)"

text \<open>\<^verbatim>\<open>/\.css$/\<close>\<close>

definition css_regex :: "atom list" where
  "css_regex = [Lit (CHR ''.''), Lit (CHR ''c''), Lit (CHR ''s''), Lit (CHR ''s'')]"

text \<open>
  \<^verbatim>\<open>new RegExp(`.${ext}$`)\<close>: the pattern is read from a text, in which the dot of
  the extension is a dot of the pattern as well.
\<close>

definition atom_of :: "char \<Rightarrow> atom" where
  "atom_of c = (if c = CHR ''.'' then AnyChar else Lit c)"

definition unlink_regex :: "Extension \<Rightarrow> atom list" where
  "unlink_regex ext = map atom_of (''.'' @ ext_text ext)"

text \<open>
  \<open>path.basename(path, suffix)\<close> belongs to Node, not to the repository. The model
  follows the POSIX implementation of Node's \<open>lib/path.js\<close>: one scan of the path from its
  end, with the variables of that loop as a record. The scan stops (\<open>break\<close>) at the
  first slash before the last component.
\<close>

record bn_state =
  bn_start :: int
  bn_end :: int
  matchedSlash :: bool
  extIdx :: int
  firstNonSlashEnd :: int

definition see_non_slash :: "nat \<Rightarrow> bn_state \<Rightarrow> bn_state" where
  "see_non_slash i s =
     (if firstNonSlashEnd s = -1
      then s\<lparr>matchedSlash := False, firstNonSlashEnd := int i + 1\<rparr>
      else s)"

definition match_ext :: "string \<Rightarrow> string \<Rightarrow> nat \<Rightarrow> bn_state \<Rightarrow> bn_state" where
  "match_ext path suffix i s =
     (if 0 \<le> extIdx s then
        (if path ! i = suffix ! nat (extIdx s) then
           (if extIdx s - 1 = -1
            then s\<lparr>extIdx := extIdx s - 1, bn_end := int i\<rparr>
            else s\<lparr>extIdx := extIdx s - 1\<rparr>)
         else s\<lparr>extIdx := -1, bn_end := firstNonSlashEnd s\<rparr>)
      else s)"

fun suffix_scan :: "string \<Rightarrow> string \<Rightarrow> nat \<Rightarrow> bn_state \<Rightarrow> bn_state" where
  "suffix_scan path suffix 0 s = s"
| "suffix_scan path suffix (Suc i) s =
     (if path ! i = CHR ''/'' then
        (if \<not> matchedSlash s then s\<lparr>bn_start := int i + 1\<rparr>
         else suffix_scan path suffix i s)
      else suffix_scan path suffix i (match_ext path suffix i (see_non_slash i s)))"

fun plain_scan :: "string \<Rightarrow> nat \<Rightarrow> bn_state \<Rightarrow> bn_state" where
  "plain_scan path 0 s = s"
| "plain_scan path (Suc i) s =
     (if path ! i = CHR ''/'' then
        (if \<not> matchedSlash s then s\<lparr>bn_start := int i + 1\<rparr>
         else plain_scan path i s)
      else if bn_end s = -1
        then plain_scan path i (s\<lparr>matchedSlash := False, bn_end := int i + 1\<rparr>)
        else plain_scan path i s)"

text \<open>\<open>path.slice(start, end)\<close>, for the indices the scan gives (never negative).\<close>

definition js_slice :: "string \<Rightarrow> int \<Rightarrow> int \<Rightarrow> string" where
  "js_slice s from to = drop (nat from) (take (nat to) s)"

definition basename :: "string \<Rightarrow> string \<Rightarrow> string" where
  "basename path suffix =
     (let init = \<lparr>bn_start = 0, bn_end = -1, matchedSlash = True,
                  extIdx = int (length suffix) - 1, firstNonSlashEnd = -1\<rparr>
      in if 0 < length suffix \<and> length suffix \<le> length path then
           (if suffix = path then []
            else let s = suffix_scan path suffix (length path) init;
                     e = (if bn_start s = bn_end s then firstNonSlashEnd s
                          else if bn_end s = -1 then int (length path)
                          else bn_end s)
                 in js_slice path (bn_start s) e)
         else let s = plain_scan path (length path) init
              in if bn_end s = -1 then [] else js_slice path (bn_start s) (bn_end s))"

section \<open>createFile and createFiles (core.ts)\<close>

text \<open>
  The four renderers are modules of the repository that are not among its files here;
  they are parameters of the model. A renderer returns the generated text or throws. The
  third argument of the react renderer is optional: \<open>None\<close> when the call leaves it
  out. \<open>'d\<close> is the parser's type \<open>Data\<close>, an object type: every element of a
  \<open>Data[]\<close> is truthy, so \<^verbatim>\<open>if (data[0])\<close> asks whether the array has a first element.
\<close>

record 'd renderers =
  reactRender :: "string \<Rightarrow> 'd \<Rightarrow> bool option \<Rightarrow> js_error + string"
  astroRender :: "string \<Rightarrow> 'd \<Rightarrow> js_error + string"
  vueRender :: "string \<Rightarrow> 'd \<Rightarrow> js_error + string"
  svelteRender :: "string \<Rightarrow> 'd \<Rightarrow> js_error + string"

text \<open>The switch on the target.\<close>

fun render_target :: "'d renderers \<Rightarrow> Target \<Rightarrow> string \<Rightarrow> 'd \<Rightarrow> js_error + string" where
  "render_target R React name d = reactRender R name d None"
| "render_target R Hono name d = reactRender R name d (Some True)"
| "render_target R Astro name d = astroRender R name d"
| "render_target R Vue name d = vueRender R name d"
| "render_target R Svelte name d = svelteRender R name d"

text \<open>The catch block that createFile and the command line share.\<close>

fun report :: "string \<Rightarrow> js_error \<Rightarrow> world \<Rightarrow> world" where
  "report mist (JsError message) w = console_error (''Error '' @ mist @ '': '' @ message) w"
| "report mist (JsValue v) w = console_error v (console_error (''Error '' @ mist) w)"

text \<open>
  \<^verbatim>\<open>return fsPromises.writeFile(mist.replace(/\.css$/, ext), result, ...)\<close>: the promise
  of the write is returned without \<open>await\<close>, so it settles the promise of createFile
  and its rejection does not reach the catch block.
\<close>

definition return_write :: "string \<Rightarrow> Extension \<Rightarrow> string \<Rightarrow> world \<Rightarrow> unit settled \<times> world" where
  "return_write mist ext result w =
     (case writeFile (replace_at_end css_regex mist (ext_text ext)) result w of
        Inl e \<Rightarrow> (Rejected e, w)
      | Inr w' \<Rightarrow> (Fulfilled (), w'))"

text \<open>What createFile does once the renderer has returned or thrown.\<close>

definition after_render :: "string \<Rightarrow> Extension \<Rightarrow> js_error + string \<Rightarrow> world \<Rightarrow> unit settled \<times> world" where
  "after_render mist ext rendered w =
     (case rendered of
        Inl e \<Rightarrow> (Fulfilled (), report mist e w)
      | Inr result \<Rightarrow> return_write mist ext result w)"

definition createFile ::
  "'d renderers \<Rightarrow> 'd list \<Rightarrow> string \<Rightarrow> Target \<Rightarrow> Extension \<Rightarrow> world \<Rightarrow> unit settled \<times> world" where
  "createFile R data mist target ext w =
     (let name = basename mist ''.mist.css'' in
      case data of
        [] \<Rightarrow> (Fulfilled (), w)
      | d # rest \<Rightarrow> after_render mist ext (render_target R target name d) w)"

text \<open>
  \<^verbatim>\<open>targets.map(([target, ext]) => { void createFile(data, mist, target, ext) })\<close>:
  the callback returns nothing, so the array holds \<open>undefined\<close> for every target, which
  \<open>Promise.all\<close> takes as a fulfilled value.
\<close>

fun map_targets ::
  "'d renderers \<Rightarrow> 'd list \<Rightarrow> string \<Rightarrow> (Target \<times> Extension) list \<Rightarrow> world
   \<Rightarrow> unit settled list \<times> world" where
  "map_targets R data mist [] w = ([], w)"
| "map_targets R data mist ((target, ext) # ts) w =
     (case createFile R data mist target ext w of
        (p, w1) \<Rightarrow>
          (case map_targets R data mist ts (discard p w1) of
             (ps, w2) \<Rightarrow> (Fulfilled () # ps, w2)))"

definition createFiles ::
  "'d renderers \<Rightarrow> 'd list \<Rightarrow> string \<Rightarrow> (Target \<times> Extension) list \<Rightarrow> world
   \<Rightarrow> unit settled \<times> world" where
  "createFiles R data mist targets w =
     (case map_targets R data mist targets w of
        (promises, w') \<Rightarrow> (then_return (promise_all promises), w'))"

section \<open>The command line (the program that imports core.ts)\<close>

text \<open>
  A step of the top-level script returns \<open>Some code\<close> when it ends the process
  with \<open>process.exit(code)\<close>, and \<open>None\<close> when the script goes on.
\<close>

definition usage_text :: string where
  "usage_text =
     ''Usage: mistcss <directory> [options]'' @ [CHR 0x0A] @
     ''  --watch, -w    Watch for changes'' @ [CHR 0x0A] @
     ''  --target, -t   Render target (react, vue, astro, hono, svelte) [default: react]'' @
     [CHR 0x0A]"

definition usage :: "world \<Rightarrow> world" where
  "usage w = console_log usage_text w"

text \<open>
  \<^verbatim>\<open>target.forEach((target) => { try { getTarget(target) } catch (e) { ... exit(1) } })\<close>
\<close>

fun validate_targets :: "string list \<Rightarrow> world \<Rightarrow> nat option \<times> world" where
  "validate_targets [] w = (None, w)"
| "validate_targets (target # ts) w =
     (case getTarget target of
        Inr t \<Rightarrow> validate_targets ts w
      | Inl e \<Rightarrow> (Some 1, usage (console_error ''Invalid render option'' w)))"

definition rendering_line :: "Target \<Rightarrow> string" where
  "rendering_line target =
     (case target of
        React \<Rightarrow> ''Rendering React components''
      | Hono \<Rightarrow> ''Rendering Hono components''
      | Astro \<Rightarrow> ''Rendering Astro components''
      | Vue \<Rightarrow> ''Rendering Vue components''
      | Svelte \<Rightarrow> ''Rendering Svelte components'')"

definition setExtension :: "string \<Rightarrow> world \<Rightarrow> (js_error + Target \<times> Extension) \<times> world" where
  "setExtension targetStr w =
     (case getTarget targetStr of
        Inl e \<Rightarrow> (Inl e, w)
      | Inr target \<Rightarrow>
          (Inr (target, getExtension target), console_log (rendering_line target) w))"

text \<open>
  The batch build: the callback run for every \<open>.mist.css\<close> file. \<open>parse\<close> is a module
  of the repository that is not among its files here, so it is the parameter \<open>P\<close>: it
  returns the \<open>Data[]\<close> of a text or throws. The read is awaited inside the \<open>try\<close>;
  the promise of \<open>createFiles\<close> is dropped.
\<close>

definition build_file ::
  "(string \<Rightarrow> js_error + 'd list) \<Rightarrow> 'd renderers \<Rightarrow> (Target \<times> Extension) list \<Rightarrow> string
   \<Rightarrow> world \<Rightarrow> unit settled \<times> world" where
  "build_file P R targetWithExt mist w =
     (case readFile mist w of
        Inl e \<Rightarrow> (Fulfilled (), report mist e w)
      | Inr text \<Rightarrow>
          (case P text of
             Inl e \<Rightarrow> (Fulfilled (), report mist e w)
           | Inr data \<Rightarrow>
               (case createFiles R data mist targetWithExt w of
                  (p, w') \<Rightarrow> (Fulfilled (), discard p w'))))"

fun build_files ::
  "(string \<Rightarrow> js_error + 'd list) \<Rightarrow> 'd renderers \<Rightarrow> (Target \<times> Extension) list \<Rightarrow> string list
   \<Rightarrow> world \<Rightarrow> unit settled list \<times> world" where
  "build_files P R targetWithExt [] w = ([], w)"
| "build_files P R targetWithExt (mist # cssFiles) w =
     (case build_file P R targetWithExt mist w of
        (p, w1) \<Rightarrow>
          (case build_files P R targetWithExt cssFiles w1 of
             (ps, w2) \<Rightarrow> (p # ps, w2)))"

text \<open>
  \<open>globby\<close> is a library. Only the patterns of this program are modelled, \<open>**/*\<close>
  followed by a literal text: such a pattern selects the files, at any depth, whose last
  path segment ends with the text, and no segment of which starts with a dot (the
  library's default). The clean-up pass takes the function that lists the matches as a
  parameter, with this one as the instance to compute with.
\<close>

fun segments :: "string \<Rightarrow> string list" where
  "segments [] = [[]]"
| "segments (c # cs) =
     (if c = CHR ''/'' then [] # segments cs
      else case segments cs of
             [] \<Rightarrow> [[c]]
           | seg # segs \<Rightarrow> (c # seg) # segs)"

definition visible :: "string \<Rightarrow> bool" where
  "visible seg = (case seg of [] \<Rightarrow> False | c # cs \<Rightarrow> c \<noteq> CHR ''.'')"

definition ends_with :: "string \<Rightarrow> string \<Rightarrow> bool" where
  "ends_with s t = (length t \<le> length s \<and> drop (length s - length t) s = t)"

definition glob_match :: "string \<Rightarrow> string \<Rightarrow> bool" where
  "glob_match literal p =
     (list_all visible (segments p) \<and> ends_with (last (segments p)) literal)"

definition globby :: "string \<Rightarrow> world \<Rightarrow> string list" where
  "globby pattern w =
     (if take 4 pattern = ''**/*''
      then filter (glob_match (drop 4 pattern)) (map fst (files w))
      else [])"

text \<open>
  \<open>unlink(file, ext)\<close> of the command line: the source path is rebuilt from the
  generated file's path, and when no file is there, that path is passed to
  \<open>fsPromises.unlink\<close>, whose promise is returned.
\<close>

definition unlink :: "string \<Rightarrow> Extension \<Rightarrow> world \<Rightarrow> unit settled \<times> world" where
  "unlink file ext w =
     (let mist = replace_at_end (unlink_regex ext) file ''.css'' in
      if \<not> existsSync mist w then
        (case fs_unlink mist w of
           Inl e \<Rightarrow> (Rejected e, w)
         | Inr w' \<Rightarrow> (Fulfilled (), w'))
      else (Fulfilled (), w))"

fun unlink_files :: "string list \<Rightarrow> Extension \<Rightarrow> world \<Rightarrow> unit settled list \<times> world" where
  "unlink_files [] ext w = ([], w)"
| "unlink_files (file # fs) ext w =
     (case unlink file ext w of
        (p, w1) \<Rightarrow>
          (case unlink_files fs ext w1 of
             (ps, w2) \<Rightarrow> (p # ps, w2)))"

text \<open>
  \<^verbatim>\<open>targetWithExt.map(async ([, ext]) => globby(`**/*.mist.${ext}`).then(...))\<close>
  and the \<open>Promise.all\<close> that the script awaits.
\<close>

fun cleanup_targets ::
  "(string \<Rightarrow> world \<Rightarrow> string list) \<Rightarrow> (Target \<times> Extension) list \<Rightarrow> world
   \<Rightarrow> unit list settled list \<times> world" where
  "cleanup_targets G [] w = ([], w)"
| "cleanup_targets G ((target, ext) # ts) w =
     (case unlink_files (G (''**/*.mist.'' @ ext_text ext) w) ext w of
        (ps, w1) \<Rightarrow>
          (case cleanup_targets G ts w1 of
             (qs, w2) \<Rightarrow> (promise_all ps # qs, w2)))"

definition cleanup ::
  "(string \<Rightarrow> world \<Rightarrow> string list) \<Rightarrow> (Target \<times> Extension) list \<Rightarrow> world
   \<Rightarrow> unit list list settled \<times> world" where
  "cleanup G targetWithExt w =
     (case cleanup_targets G targetWithExt w of
        (promises, w') \<Rightarrow> (promise_all promises, w'))"

section \<open>Sample inputs\<close>

text \<open>
  Renderers that answer with their own name, the component name, the flavour and the
  schema (a text stands for a schema here), the same with an astro renderer that throws,
  and three states of the working directory: an empty one, one with a generated file
  whose source is gone, and one whose generated file cannot be written.
\<close>

definition echo_renderers :: "string renderers" where
  "echo_renderers =
     \<lparr>reactRender = (\<lambda>name d flavor.
        Inr (''react '' @ name @ (if flavor = Some True then '' hono '' else '' '') @ d)),
      astroRender = (\<lambda>name d. Inr (''astro '' @ name @ '' '' @ d)),
      vueRender = (\<lambda>name d. Inr (''vue '' @ name @ '' '' @ d)),
      svelteRender = (\<lambda>name d. Inr (''svelte '' @ name @ '' '' @ d))\<rparr>"

definition failing_renderers :: "string renderers" where
  "failing_renderers =
     echo_renderers\<lparr>astroRender := (\<lambda>name d. Inl (JsError ''no template''))\<rparr>"

definition empty_world :: world where
  "empty_world = \<lparr>files = [], denied = [], stderr = [], stdout = [], unhandled = []\<rparr>"

definition orphan_world :: world where
  "orphan_world = empty_world\<lparr>files := [(''Button.mist.tsx'', ''old output'')]\<rparr>"

definition locked_world :: world where
  "locked_world =
     empty_world\<lparr>files := [(''Button.mist.css'', ''.button {}'')],
                 denied := [''Button.mist.tsx'']\<rparr>"

section \<open>Targets: getExtension and getTarget\<close>

text \<open>
  C6: \<open>getExtension\<close> is defined on each of the five targets; react, hono and vue
  get one and the same extension, astro a second one and svelte a third one, and the
  three extensions (and the texts they stand for) are pairwise different.
\<close>

theorem getExtension_mapping:
  "getExtension React = Tsx \<and> getExtension Hono = Tsx \<and> getExtension Vue = Tsx
   \<and> getExtension Astro = AstroExt \<and> getExtension Svelte = SvelteExt
   \<and> Tsx \<noteq> AstroExt \<and> Tsx \<noteq> SvelteExt \<and> AstroExt \<noteq> SvelteExt
   \<and> ext_text Tsx \<noteq> ext_text AstroExt \<and> ext_text Tsx \<noteq> ext_text SvelteExt
   \<and> ext_text AstroExt \<noteq> ext_text SvelteExt"
  by simp

lemma getTarget_invalid:
  "s \<notin> {''react'', ''hono'', ''astro'', ''vue'', ''svelte''}
   \<Longrightarrow> getTarget s = Inl (JsError ''Invalid target option'')"
  by (simp add: getTarget_def)

lemma getTarget_valid:
  "s \<in> {''react'', ''hono'', ''astro'', ''vue'', ''svelte''} \<Longrightarrow> \<exists>t. getTarget s = Inr t"
  by (auto simp: getTarget_def)

text \<open>The validation loop goes through a list of valid names without any effect.\<close>

lemma validate_targets_all_valid:
  "set ts \<subseteq> {''react'', ''hono'', ''astro'', ''vue'', ''svelte''}
   \<Longrightarrow> validate_targets ts w = (None, w)"
proof (induction ts)
  case Nil
  show ?case by simp
next
  case (Cons s ts)
  then obtain t where "getTarget s = Inr t" using getTarget_valid [of s] by auto
  with Cons show ?case by simp
qed

text \<open>It leaves at the first name that is not valid: nothing was printed before.\<close>

lemma validate_targets_invalid:
  "\<not> set ts \<subseteq> {''react'', ''hono'', ''astro'', ''vue'', ''svelte''}
   \<Longrightarrow> validate_targets ts w = (Some 1, usage (console_error ''Invalid render option'' w))"
proof (induction ts)
  case Nil
  then show ?case by simp
next
  case (Cons s ts)
  show ?case
  proof (cases "s \<in> {''react'', ''hono'', ''astro'', ''vue'', ''svelte''}")
    case True
    then obtain t where t: "getTarget s = Inr t" using getTarget_valid [of s] by auto
    from True Cons.prems have "\<not> set ts \<subseteq> {''react'', ''hono'', ''astro'', ''vue'', ''svelte''}"
      by auto
    with Cons.IH t show ?thesis by simp
  next
    case False
    then show ?thesis using getTarget_invalid [of s] by simp
  qed
qed

text \<open>
  C7: \<open>getTarget s\<close> returns a target exactly when \<open>s\<close> is one of the five names
  (and then the target of that name), and throws the error \<open>Invalid target option\<close>
  for every other text. When the list of targets given on the command line holds such a
  text, the validation loop writes \<open>Invalid render option\<close> to the error stream,
  prints the usage text and ends the process with status 1.
\<close>

theorem getTarget_five_names:
  "((\<exists>t. getTarget s = Inr t) = (s \<in> {''react'', ''hono'', ''astro'', ''vue'', ''svelte''}))
   \<and> getTarget ''react'' = Inr React \<and> getTarget ''hono'' = Inr Hono
   \<and> getTarget ''astro'' = Inr Astro \<and> getTarget ''vue'' = Inr Vue
   \<and> getTarget ''svelte'' = Inr Svelte
   \<and> (s \<notin> {''react'', ''hono'', ''astro'', ''vue'', ''svelte''}
        \<longrightarrow> getTarget s = Inl (JsError ''Invalid target option''))
   \<and> (s \<notin> {''react'', ''hono'', ''astro'', ''vue'', ''svelte''} \<and> s \<in> set ts
        \<longrightarrow> validate_targets ts w = (Some 1, usage (console_error ''Invalid render option'' w))
          \<and> stdout (snd (validate_targets ts w)) = stdout w @ [usage_text]
          \<and> stderr (snd (validate_targets ts w)) = stderr w @ [''Invalid render option''])"
proof (intro conjI impI)
  let ?names = "{''react'', ''hono'', ''astro'', ''vue'', ''svelte''}"
  show "(\<exists>t. getTarget s = Inr t) = (s \<in> ?names)"
  proof (cases "s \<in> ?names")
    case True
    from getTarget_valid [OF True] True show ?thesis by (simp only: simp_thms)
  next
    case False
    from getTarget_invalid [OF False] False show ?thesis
      by (simp only: simp_thms sum.distinct ex_simps)
  qed
  show "getTarget ''react'' = Inr React" by (simp add: getTarget_def)
  show "getTarget ''hono'' = Inr Hono" by (simp add: getTarget_def)
  show "getTarget ''astro'' = Inr Astro" by (simp add: getTarget_def)
  show "getTarget ''vue'' = Inr Vue" by (simp add: getTarget_def)
  show "getTarget ''svelte'' = Inr Svelte" by (simp add: getTarget_def)
  show "getTarget s = Inl (JsError ''Invalid target option'')" if "s \<notin> ?names"
    using that by (rule getTarget_invalid)
  assume bad: "s \<notin> ?names \<and> s \<in> set ts"
  from bad have other: "s \<notin> ?names" by (rule conjunct1)
  from bad have given: "s \<in> set ts" by (rule conjunct2)
  have "\<not> set ts \<subseteq> ?names"
  proof
    assume "set ts \<subseteq> ?names"
    then have "s \<in> ?names" using given by (rule subsetD)
    with other show False by (rule notE)
  qed
  then have v: "validate_targets ts w =
      (Some 1, usage (console_error ''Invalid render option'' w))"
    by (rule validate_targets_invalid)
  show "validate_targets ts w = (Some 1, usage (console_error ''Invalid render option'' w))"
    by (rule v)
  show "stdout (snd (validate_targets ts w)) = stdout w @ [usage_text]"
    unfolding v by (simp add: usage_def console_log_def console_error_def)
  show "stderr (snd (validate_targets ts w)) = stderr w @ [''Invalid render option'']"
    unfolding v by (simp add: usage_def console_log_def console_error_def)
qed

theorem getTarget_five_names_witness:
  "getTarget ''solid'' = Inl (JsError ''Invalid target option'')
   \<and> validate_targets [''react'', ''solid'', ''vue''] empty_world =
       (Some 1, empty_world\<lparr>stderr := [''Invalid render option''], stdout := [usage_text]\<rparr>)"
  using getTarget_five_names [of "''solid''" "[''react'', ''solid'', ''vue'']" empty_world]
  by (simp add: usage_def console_log_def console_error_def empty_world_def)

text \<open>The pair that the command line builds for a target holds getExtension's answer.\<close>

lemma setExtension_pair:
  "fst (setExtension targetStr w) = Inr (target, ext) \<Longrightarrow> ext = getExtension target"
  by (auto simp: setExtension_def split: sum.splits)

section \<open>The component name\<close>

lemma see_non_slash_seen:
  "firstNonSlashEnd s \<noteq> -1 \<Longrightarrow> see_non_slash i s = s"
  by (simp add: see_non_slash_def)

lemma see_non_slash_first: "firstNonSlashEnd (see_non_slash i s) \<noteq> -1"
  by (simp add: see_non_slash_def)

lemma see_non_slash_extIdx: "extIdx (see_non_slash i s) = extIdx s"
  by (simp add: see_non_slash_def)

text \<open>
  The first phase of the scan: the last \<open>k\<close> characters of the path are those of the
  suffix, one index after the other, until the whole suffix is matched and \<open>end\<close> is
  set to the place where it starts.
\<close>

lemma suffix_scan_match:
  assumes "0 < k" and "k \<le> length suf" and "CHR ''/'' \<notin> set suf"
    and "extIdx s = int k - 1"
  shows "suffix_scan (pre @ suf) suf (length pre + k) s =
         suffix_scan (pre @ suf) suf (length pre)
           ((see_non_slash (length pre + k - 1) s)\<lparr>extIdx := -1, bn_end := int (length pre)\<rparr>)"
  using assms
proof (induction k arbitrary: s)
  case 0
  then show ?case by simp
next
  case (Suc k)
  let ?path = "pre @ suf"
  let ?i = "length pre + k"
  let ?s1 = "see_non_slash ?i s"
  have klt: "k < length suf" using Suc.prems(2) by simp
  have ch: "?path ! ?i = suf ! k" by (simp add: nth_append)
  have noslash: "?path ! ?i \<noteq> CHR ''/''"
    using klt Suc.prems(3) ch by (metis nth_mem)
  have ext: "extIdx ?s1 = int k" using Suc.prems(4) by (simp add: see_non_slash_extIdx)
  have step: "suffix_scan ?path suf (length pre + Suc k) s =
              suffix_scan ?path suf ?i (match_ext ?path suf ?i ?s1)"
    using noslash by simp
  show ?case
  proof (cases "k = 0")
    case True
    have "match_ext ?path suf ?i ?s1 = ?s1\<lparr>extIdx := -1, bn_end := int (length pre)\<rparr>"
      using ext ch True by (simp add: match_ext_def)
    with step True show ?thesis by simp
  next
    case False
    have m: "match_ext ?path suf ?i ?s1 = ?s1\<lparr>extIdx := int k - 1\<rparr>"
      using ext ch False by (simp add: match_ext_def)
    have seen: "see_non_slash (length pre + k - 1) (?s1\<lparr>extIdx := int k - 1\<rparr>)
                = ?s1\<lparr>extIdx := int k - 1\<rparr>"
      by (rule see_non_slash_seen) (simp add: see_non_slash_first)
    have "suffix_scan ?path suf ?i (?s1\<lparr>extIdx := int k - 1\<rparr>) =
          suffix_scan ?path suf (length pre)
            ((see_non_slash (length pre + k - 1) (?s1\<lparr>extIdx := int k - 1\<rparr>))
               \<lparr>extIdx := -1, bn_end := int (length pre)\<rparr>)"
      using False klt Suc.prems(3) by (intro Suc.IH) simp_all
    with step m seen show ?thesis by simp
  qed
qed

text \<open>The second phase: the characters of the name change nothing.\<close>

lemma suffix_scan_skip:
  assumes "extIdx s < 0" and "firstNonSlashEnd s \<noteq> -1"
    and "CHR ''/'' \<notin> set name"
  shows "suffix_scan (dir @ name @ rest) suf (length dir + n) s =
         suffix_scan (dir @ name @ rest) suf (length dir) s \<or> length name < n"
  using assms
proof (induction n)
  case 0
  show ?case by simp
next
  case (Suc n)
  show ?case
  proof (cases "Suc n \<le> length name")
    case False
    then show ?thesis by simp
  next
    case True
    then have nlt: "n < length name" by simp
    have "(dir @ name @ rest) ! (length dir + n) = name ! n"
      using nlt by (simp add: nth_append)
    then have noslash: "(dir @ name @ rest) ! (length dir + n) \<noteq> CHR ''/''"
      using nlt Suc.prems(3) by (metis nth_mem)
    have same: "match_ext (dir @ name @ rest) suf (length dir + n)
                  (see_non_slash (length dir + n) s) = s"
      using Suc.prems(1,2) by (simp add: match_ext_def see_non_slash_def)
    from Suc.IH Suc.prems nlt noslash same show ?thesis by simp
  qed
qed

text \<open>The end of the scan: the start of the path, or the slash that ends the directory.\<close>

lemma suffix_scan_stop:
  assumes "dir = [] \<or> last dir = CHR ''/''" and "\<not> matchedSlash s"
  shows "suffix_scan (dir @ rest) suf (length dir) s =
         (if dir = [] then s else s\<lparr>bn_start := int (length dir)\<rparr>)"
proof (cases dir rule: rev_cases)
  case Nil
  then show ?thesis by simp
next
  case (snoc ds c)
  with assms show ?thesis by (simp add: nth_append)
qed

lemma basename_strips_suffix:
  assumes name: "name \<noteq> []" and nslash: "CHR ''/'' \<notin> set name"
    and dir: "dir = [] \<or> last dir = CHR ''/''"
    and suf: "suf \<noteq> []" and sslash: "CHR ''/'' \<notin> set suf"
  shows "basename (dir @ name @ suf) suf = name"
proof -
  let ?path = "dir @ name @ suf"
  let ?init = "\<lparr>bn_start = 0, bn_end = -1, matchedSlash = True,
                 extIdx = int (length suf) - 1, firstNonSlashEnd = -1\<rparr>"
  let ?mid = "\<lparr>bn_start = 0, bn_end = int (length dir + length name), matchedSlash = False,
                extIdx = -1, firstNonSlashEnd = int (length ?path)\<rparr>"
  have "suffix_scan ?path suf (length ?path) ?init =
        suffix_scan ((dir @ name) @ suf) suf (length (dir @ name) + length suf) ?init"
    by (simp add: add.assoc)
  also have "\<dots> = suffix_scan ((dir @ name) @ suf) suf (length (dir @ name))
        ((see_non_slash (length (dir @ name) + length suf - 1) ?init)
           \<lparr>extIdx := -1, bn_end := int (length (dir @ name))\<rparr>)"
    using suf sslash by (intro suffix_scan_match) simp_all
  also have "\<dots> = suffix_scan ?path suf (length dir + length name) ?mid"
  proof -
    have "(see_non_slash (length (dir @ name) + length suf - 1) ?init)
            \<lparr>extIdx := -1, bn_end := int (length (dir @ name))\<rparr> = ?mid"
      using suf by (cases suf) (simp_all add: see_non_slash_def)
    then show ?thesis by simp
  qed
  also have "\<dots> = suffix_scan ?path suf (length dir) ?mid"
    using suffix_scan_skip [of ?mid name dir suf suf "length name"] nslash by simp
  also have "\<dots> = (if dir = [] then ?mid else ?mid\<lparr>bn_start := int (length dir)\<rparr>)"
    using suffix_scan_stop [of dir ?mid "name @ suf" suf] dir by simp
  finally have scan:
    "suffix_scan ?path suf (length ?path) ?init = ?mid\<lparr>bn_start := int (length dir)\<rparr>"
    by simp
  have ne: "suf \<noteq> ?path"
    using name by (metis append_self_conv2 append_assoc append_is_Nil_conv)
  show ?thesis
    using name suf ne unfolding basename_def Let_def scan
    by (simp add: js_slice_def)
qed

lemma basename_Button:
  "basename ''src/Button.mist.css'' ''.mist.css'' = ''Button''"
  using basename_strips_suffix [of "''Button''" "''src/''" "''.mist.css''"] by simp

text \<open>
  C9: for every input path, every target and every first schema, the name that
  createFile hands to the renderer is \<open>path.basename\<close> of the path with the suffix
  \<open>.mist.css\<close>; for a file \<open>name.mist.css\<close> in any directory (the name is not empty
  and holds no slash) that is \<open>name\<close>.
\<close>

theorem createFile_component_name:
  "createFile R (d # rest) mist target ext w =
     after_render mist ext (render_target R target (basename mist ''.mist.css'') d) w
   \<and> (name \<noteq> [] \<and> CHR ''/'' \<notin> set name \<and> (dir = [] \<or> last dir = CHR ''/'')
        \<longrightarrow> basename (dir @ name @ ''.mist.css'') ''.mist.css'' = name
          \<and> createFile R (d # rest) (dir @ name @ ''.mist.css'') target ext w =
              after_render (dir @ name @ ''.mist.css'') ext (render_target R target name d) w)"
  using basename_strips_suffix [of name dir "''.mist.css''"]
  by (simp add: createFile_def)

theorem createFile_component_name_witness:
  "basename ''src/Button.mist.css'' ''.mist.css'' = ''Button''
   \<and> createFile echo_renderers [''schema''] ''src/Button.mist.css'' Svelte SvelteExt empty_world =
       after_render ''src/Button.mist.css'' SvelteExt (Inr ''svelte Button schema'') empty_world"
  using createFile_component_name [of echo_renderers "''schema''" "[]"
      "''src/Button.mist.css''" Svelte SvelteExt empty_world "''Button''" "''src/''"]
  by (simp add: echo_renderers_def)

section \<open>createFile\<close>

lemma createFile_head_only:
  "createFile R (d # rest) mist target ext w = createFile R (d # rest') mist target ext w"
  by (simp add: createFile_def)

lemma map_targets_head_only:
  "map_targets R (d # rest) mist targets w = map_targets R (d # rest') mist targets w"
proof (induction targets arbitrary: w)
  case Nil
  show ?case by simp
next
  case (Cons te ts)
  obtain target ext where te: "te = (target, ext)" by (cases te)
  show ?case
    unfolding te map_targets.simps createFile_head_only [of R d rest mist target ext w rest']
    by (simp add: Cons.IH split: prod.splits)
qed

text \<open>
  C2: createFile renders and writes with the first element of the data array and with
  nothing else of it. For every target, the renderer of that target is called with the
  component name and \<open>data[0]\<close>; when it returns a text, that text is written to the
  output path and nothing else changes (or, when the write is refused, createFile is
  rejected with the state as it was); when it throws, the error is reported. Whatever
  follows the first element has no part in it: the outcome and the state are the same
  when the later schemas are replaced by any others, for createFile and for createFiles
  over any list of targets.
\<close>

theorem createFile_first_schema_only:
  "createFile R (d # rest) mist target ext w = createFile R (d # rest') mist target ext w
   \<and> createFiles R (d # rest) mist targets w = createFiles R (d # rest') mist targets w
   \<and> ((case target of
          React \<Rightarrow> reactRender R (basename mist ''.mist.css'') d None
        | Hono \<Rightarrow> reactRender R (basename mist ''.mist.css'') d (Some True)
        | Astro \<Rightarrow> astroRender R (basename mist ''.mist.css'') d
        | Vue \<Rightarrow> vueRender R (basename mist ''.mist.css'') d
        | Svelte \<Rightarrow> svelteRender R (basename mist ''.mist.css'') d) = Inr result
        \<and> replace_at_end css_regex mist (ext_text ext) \<notin> set (denied w)
       \<longrightarrow> createFile R (d # rest) mist target ext w =
            (Fulfilled (),
             w\<lparr>files :=
                 AList.update (replace_at_end css_regex mist (ext_text ext)) result (files w)\<rparr>))
   \<and> ((case target of
          React \<Rightarrow> reactRender R (basename mist ''.mist.css'') d None
        | Hono \<Rightarrow> reactRender R (basename mist ''.mist.css'') d (Some True)
        | Astro \<Rightarrow> astroRender R (basename mist ''.mist.css'') d
        | Vue \<Rightarrow> vueRender R (basename mist ''.mist.css'') d
        | Svelte \<Rightarrow> svelteRender R (basename mist ''.mist.css'') d) = Inr result
        \<and> replace_at_end css_regex mist (ext_text ext) \<in> set (denied w)
       \<longrightarrow> createFile R (d # rest) mist target ext w =
            (Rejected (eacces ''open'' (replace_at_end css_regex mist (ext_text ext))), w))
   \<and> ((case target of
          React \<Rightarrow> reactRender R (basename mist ''.mist.css'') d None
        | Hono \<Rightarrow> reactRender R (basename mist ''.mist.css'') d (Some True)
        | Astro \<Rightarrow> astroRender R (basename mist ''.mist.css'') d
        | Vue \<Rightarrow> vueRender R (basename mist ''.mist.css'') d
        | Svelte \<Rightarrow> svelteRender R (basename mist ''.mist.css'') d) = Inl e
       \<longrightarrow> createFile R (d # rest) mist target ext w =
            (Fulfilled (),
             (case e of
                JsError message \<Rightarrow>
                  w\<lparr>stderr := stderr w @ [''Error '' @ mist @ '': '' @ message]\<rparr>
              | JsValue v \<Rightarrow> w\<lparr>stderr := stderr w @ [''Error '' @ mist, v]\<rparr>)))"
proof (intro conjI impI)
  show "createFile R (d # rest) mist target ext w = createFile R (d # rest') mist target ext w"
    by (rule createFile_head_only)
  show "createFiles R (d # rest) mist targets w = createFiles R (d # rest') mist targets w"
    using map_targets_head_only [of R d rest mist targets w rest']
    by (simp add: createFiles_def)
  let ?name = "basename mist ''.mist.css''"
  let ?call = "case target of
          React \<Rightarrow> reactRender R ?name d None
        | Hono \<Rightarrow> reactRender R ?name d (Some True)
        | Astro \<Rightarrow> astroRender R ?name d
        | Vue \<Rightarrow> vueRender R ?name d
        | Svelte \<Rightarrow> svelteRender R ?name d"
  have call: "render_target R target ?name d = ?call"
    by (cases target) simp_all
  have cf: "createFile R (d # rest) mist target ext w = after_render mist ext ?call w"
    unfolding call [symmetric] by (simp add: createFile_def)
  show "createFile R (d # rest) mist target ext w =
          (Fulfilled (),
           w\<lparr>files :=
               AList.update (replace_at_end css_regex mist (ext_text ext)) result (files w)\<rparr>)"
    if "?call = Inr result \<and> replace_at_end css_regex mist (ext_text ext) \<notin> set (denied w)"
    using that unfolding cf by (simp add: after_render_def return_write_def writeFile_def)
  show "createFile R (d # rest) mist target ext w =
          (Rejected (eacces ''open'' (replace_at_end css_regex mist (ext_text ext))), w)"
    if "?call = Inr result \<and> replace_at_end css_regex mist (ext_text ext) \<in> set (denied w)"
    using that unfolding cf by (simp add: after_render_def return_write_def writeFile_def)
  show "createFile R (d # rest) mist target ext w =
          (Fulfilled (),
           (case e of
              JsError message \<Rightarrow>
                w\<lparr>stderr := stderr w @ [''Error '' @ mist @ '': '' @ message]\<rparr>
            | JsValue v \<Rightarrow> w\<lparr>stderr := stderr w @ [''Error '' @ mist, v]\<rparr>))"
    if "?call = Inl e"
    using that unfolding cf
    by (cases e) (simp_all add: after_render_def console_error_def)
qed

theorem createFile_first_schema_only_witness:
  "createFile echo_renderers [''first'', ''second''] ''src/Button.mist.css'' Vue Tsx empty_world =
     (Fulfilled (), empty_world\<lparr>files := [(''src/Button.mist.tsx'', ''vue Button first'')]\<rparr>)
   \<and> createFile echo_renderers [''first'', ''second''] ''Button.mist.css'' React Tsx locked_world =
       (Rejected (eacces ''open'' ''Button.mist.tsx''), locked_world)
   \<and> createFile failing_renderers [''first'', ''second''] ''src/Button.mist.css'' Astro AstroExt
       empty_world =
       (Fulfilled (),
        empty_world\<lparr>stderr := [''Error src/Button.mist.css: no template'']\<rparr>)"
proof -
  have p1: "replace_at_end css_regex ''src/Button.mist.css'' r = ''src/Button.mist'' @ r" for r
    by (simp add: replace_at_end_def css_regex_def)
  have p2: "replace_at_end css_regex ''Button.mist.css'' r = ''Button.mist'' @ r" for r
    by (simp add: replace_at_end_def css_regex_def)
  have n2: "basename ''Button.mist.css'' ''.mist.css'' = ''Button''"
    using basename_strips_suffix [of "''Button''" "[]" "''.mist.css''"] by simp
  have a: "createFile echo_renderers [''first'', ''second''] ''src/Button.mist.css'' Vue Tsx
             empty_world =
     (Fulfilled (), empty_world\<lparr>files := [(''src/Button.mist.tsx'', ''vue Button first'')]\<rparr>)"
    using createFile_first_schema_only [of echo_renderers "''first''" "[''second'']"
        "''src/Button.mist.css''" Vue Tsx empty_world "[''second'']" "[]" "''vue Button first''"]
    by (simp add: basename_Button p1 echo_renderers_def empty_world_def)
  have b: "createFile echo_renderers [''first'', ''second''] ''Button.mist.css'' React Tsx
             locked_world =
       (Rejected (eacces ''open'' ''Button.mist.tsx''), locked_world)"
    using createFile_first_schema_only [of echo_renderers "''first''" "[''second'']"
        "''Button.mist.css''" React Tsx locked_world "[''second'']" "[]" "''react Button first''"]
    by (simp add: n2 p2 echo_renderers_def locked_world_def empty_world_def)
  have c: "createFile failing_renderers [''first'', ''second''] ''src/Button.mist.css'' Astro
             AstroExt empty_world =
       (Fulfilled (),
        empty_world\<lparr>stderr := [''Error src/Button.mist.css: no template'']\<rparr>)"
    using createFile_first_schema_only [of failing_renderers "''first''" "[''second'']"
        "''src/Button.mist.css''" Astro AstroExt empty_world "[''second'']" "[]" _ "JsError ''no template''"]
    by (simp add: failing_renderers_def echo_renderers_def empty_world_def)
  from a b c show ?thesis by simp
qed

lemma promise_all_replicate:
  "promise_all (replicate n (Fulfilled x)) = Fulfilled (replicate n x)"
  by (induction n) simp_all

lemma map_targets_empty:
  "map_targets R [] mist targets w = (replicate (length targets) (Fulfilled ()), w)"
  by (induction targets arbitrary: w) (auto simp: createFile_def)

text \<open>
  C4: with an empty data array createFile is fulfilled and leaves the state as it was,
  for every target: no file is written and nothing is reported. The same holds for
  createFiles over any list of targets.
\<close>

theorem createFile_empty_data:
  "createFile R [] mist target ext w = (Fulfilled (), w)
   \<and> createFiles R [] mist targets w = (Fulfilled (), w)"
  by (simp add: createFile_def createFiles_def map_targets_empty promise_all_replicate)

lemma replace_css_suffix:
  "replace_at_end css_regex (stem @ ''.css'') r = stem @ r"
  by (simp add: replace_at_end_def css_regex_def)

text \<open>
  C5: for an input path that ends in \<open>.css\<close> and a target paired with its
  extension by the command line, when the renderer returns a text and the write is not
  refused, createFile writes that text to the input path with its last \<open>.css\<close>
  replaced by the extension of the target, and changes nothing else. (The createFile of
  bin.ts differs from this one in the \<open>flush\<close> option of the write only, which the
  model does not represent.)
\<close>

theorem createFile_output_path:
  assumes "fst (setExtension targetStr w0) = Inr (target, ext)"
    and "render_target R target (basename (stem @ ''.css'') ''.mist.css'') d = Inr result"
    and "stem @ ext_text (getExtension target) \<notin> set (denied w)"
  shows "createFile R (d # rest) (stem @ ''.css'') target ext w =
           (Fulfilled (),
            w\<lparr>files := AList.update (stem @ ext_text (getExtension target)) result (files w)\<rparr>)"
proof -
  from assms(1) have "ext = getExtension target" by (rule setExtension_pair)
  with assms(2,3) show ?thesis
    by (simp add: createFile_def after_render_def return_write_def writeFile_def
        replace_css_suffix)
qed

theorem createFile_output_path_witness:
  "fst (setExtension ''astro'' empty_world) = Inr (Astro, AstroExt)
   \<and> createFile echo_renderers [''schema''] ''src/Button.mist.css'' Astro AstroExt empty_world =
       (Fulfilled (),
        empty_world\<lparr>files := [(''src/Button.mist.astro'', ''astro Button schema'')]\<rparr>)"
  using createFile_output_path [of "''astro''" empty_world Astro AstroExt echo_renderers
      "''src/Button.mist''" "''schema''" "''astro Button schema''" empty_world "[]"]
    basename_Button
  by (simp add: setExtension_def getTarget_def echo_renderers_def empty_world_def)

text \<open>
  C8: for the target hono createFile calls the react renderer with the flavour flag
  \<open>true\<close>, for the target react it calls the same renderer without the flag; the
  name and the schema of the two calls are the same, and so is what createFile does with
  the renderer's answer.
\<close>

theorem createFile_hono_flag:
  "createFile R (d # rest) mist Hono ext w =
     after_render mist ext (reactRender R (basename mist ''.mist.css'') d (Some True)) w
   \<and> createFile R (d # rest) mist React ext w =
     after_render mist ext (reactRender R (basename mist ''.mist.css'') d None) w"
  by (simp add: createFile_def)

section \<open>createFiles\<close>

lemma map_targets_promises:
  "fst (map_targets R data mist targets w) = replicate (length targets) (Fulfilled ())"
proof (induction targets arbitrary: w)
  case Nil
  show ?case by simp
next
  case (Cons te ts)
  obtain target ext where te: "te = (target, ext)" by (cases te)
  obtain p w1 where c: "createFile R data mist target ext w = (p, w1)"
    by (cases "createFile R data mist target ext w")
  obtain ps w2 where m: "map_targets R data mist ts (discard p w1) = (ps, w2)"
    by (cases "map_targets R data mist ts (discard p w1)")
  from Cons.IH [of "discard p w1"] m have "ps = replicate (length ts) (Fulfilled ())"
    by simp
  with te c m show ?case by simp
qed

text \<open>
  The promise of createFiles is fulfilled for every data array, path, list of targets,
  renderers and state: the array it hands to \<open>Promise.all\<close> holds one fulfilled
  value for every target and no promise of createFile.
\<close>

lemma createFiles_always_fulfilled:
  "fst (createFiles R data mist targets w) = Fulfilled ()
   \<and> fst (map_targets R data mist targets w) = replicate (length targets) (Fulfilled ())"
proof -
  obtain ps w' where m: "map_targets R data mist targets w = (ps, w')"
    by (cases "map_targets R data mist targets w")
  with map_targets_promises [of R data mist targets w]
  have ps: "ps = replicate (length targets) (Fulfilled ())" by simp
  show ?thesis
    by (simp add: createFiles_def m ps promise_all_replicate)
qed

text \<open>What createFile does in the state whose generated file cannot be written.\<close>

lemma createFile_locked_world:
  "createFile echo_renderers [d] ''Button.mist.css'' React Tsx locked_world =
     (Rejected (eacces ''open'' ''Button.mist.tsx''), locked_world)"
proof -
  have "replace_at_end css_regex ''Button.mist.css'' ''.tsx'' = ''Button.mist.tsx''"
    using replace_css_suffix [of "''Button.mist''" "''.tsx''"] by simp
  then show ?thesis
    by (simp add: createFile_def after_render_def return_write_def writeFile_def
        echo_renderers_def locked_world_def empty_world_def)
qed

text \<open>
  C10, at an input on which the claim fails: one schema, the target react, and a write of
  \<open>Button.mist.tsx\<close> that is refused. The promise of createFiles is fulfilled, but
  the error of the write was not caught inside createFile: nothing is on the error
  stream, and the rejection of the dropped promise stays with the process as an
  unhandled one, where before there was none.
\<close>

theorem createFiles_write_failure_unhandled:
  "createFiles echo_renderers [''schema''] ''Button.mist.css'' [(React, Tsx)] locked_world =
     (Fulfilled (), locked_world\<lparr>unhandled := [eacces ''open'' ''Button.mist.tsx'']\<rparr>)
   \<and> stderr locked_world = [] \<and> unhandled locked_world = []"
proof -
  have un: "unhandled locked_world = []" and er: "stderr locked_world = []"
    by (simp_all add: locked_world_def empty_world_def)
  have "createFiles echo_renderers [''schema''] ''Button.mist.css'' [(React, Tsx)] locked_world =
     (Fulfilled (), locked_world\<lparr>unhandled := [eacces ''open'' ''Button.mist.tsx'']\<rparr>)"
    by (simp add: createFiles_def createFile_locked_world un)
  with un er show ?thesis by simp
qed

section \<open>The batch build\<close>

text \<open>
  A failed read, a parser that throws and a renderer that throws all end in the catch
  block: the step is fulfilled and the error is reported with the path of the input.
\<close>

lemma build_file_read_error:
  "readFile mist w = Inl e \<Longrightarrow> build_file P R ts mist w = (Fulfilled (), report mist e w)"
  by (simp add: build_file_def)

lemma build_file_parse_error:
  "readFile mist w = Inr text \<Longrightarrow> P text = Inl e
   \<Longrightarrow> build_file P R ts mist w = (Fulfilled (), report mist e w)"
  by (simp add: build_file_def)

lemma createFile_render_error:
  "render_target R target (basename mist ''.mist.css'') d = Inl e
   \<Longrightarrow> createFile R (d # rest) mist target ext w = (Fulfilled (), report mist e w)"
  by (simp add: createFile_def after_render_def)

lemma build_file_fulfilled: "fst (build_file P R ts mist w) = Fulfilled ()"
  by (simp add: build_file_def split: sum.splits prod.splits)

text \<open>
  Every step of the batch is fulfilled, so the \<open>Promise.all\<close> of the batch is,
  and a file whose read fails leaves its report and nothing else to the files after it.
\<close>

lemma build_files_fulfilled:
  "fst (build_files P R ts cssFiles w) = replicate (length cssFiles) (Fulfilled ())"
proof (induction cssFiles arbitrary: w)
  case Nil
  show ?case by simp
next
  case (Cons mist cssFiles)
  obtain p w1 where b: "build_file P R ts mist w = (p, w1)"
    by (cases "build_file P R ts mist w")
  with build_file_fulfilled [of P R ts mist w] have p: "p = Fulfilled ()" by simp
  obtain ps w2 where bs: "build_files P R ts cssFiles w1 = (ps, w2)"
    by (cases "build_files P R ts cssFiles w1")
  with Cons.IH [of w1] have "ps = replicate (length cssFiles) (Fulfilled ())" by simp
  with b p bs show ?case by simp
qed

lemma build_files_after_read_error:
  "readFile mist w = Inl e \<Longrightarrow>
   build_files P R ts (mist # cssFiles) w =
     (Fulfilled () # fst (build_files P R ts cssFiles (report mist e w)),
      snd (build_files P R ts cssFiles (report mist e w)))"
  by (simp add: build_file_read_error split: prod.splits)

text \<open>A refused write is not among them: createFile is rejected and reports nothing.\<close>

lemma createFile_write_error:
  "render_target R target (basename mist ''.mist.css'') d = Inr result
   \<Longrightarrow> writeFile (replace_at_end css_regex mist (ext_text ext)) result w = Inl e
   \<Longrightarrow> createFile R (d # rest) mist target ext w = (Rejected e, w)"
  by (simp add: createFile_def after_render_def return_write_def)

text \<open>
  C3, at an input on which the claim fails: \<open>Button.mist.css\<close> is read and parsed,
  the react renderer returns, and the write of \<open>Button.mist.tsx\<close> is refused. The
  promise of createFile is rejected; the step of the batch is fulfilled with nothing on
  the error stream, and the rejection is left unhandled.
\<close>

theorem createFile_write_failure_not_caught:
  "createFile echo_renderers [''schema''] ''Button.mist.css'' React Tsx locked_world =
     (Rejected (eacces ''open'' ''Button.mist.tsx''), locked_world)
   \<and> build_file (\<lambda>text. Inr [text]) echo_renderers [(React, Tsx)] ''Button.mist.css''
       locked_world =
     (Fulfilled (), locked_world\<lparr>unhandled := [eacces ''open'' ''Button.mist.tsx'']\<rparr>)
   \<and> stderr locked_world = []"
proof -
  have r: "replace_at_end css_regex ''Button.mist.css'' ''.tsx'' = ''Button.mist.tsx''"
    using replace_css_suffix [of "''Button.mist''" "''.tsx''"] by simp
  have c: "createFile echo_renderers [d] ''Button.mist.css'' React Tsx locked_world =
     (Rejected (eacces ''open'' ''Button.mist.tsx''), locked_world)" for d
    by (simp add: createFile_def after_render_def return_write_def writeFile_def r
        echo_renderers_def locked_world_def empty_world_def)
  have rd: "readFile ''Button.mist.css'' locked_world = Inr ''.button {}''"
    by (simp add: readFile_def locked_world_def empty_world_def)
  have un: "unhandled locked_world = []" and er: "stderr locked_world = []"
    by (simp_all add: locked_world_def empty_world_def)
  have b: "build_file (\<lambda>text. Inr [text]) echo_renderers [(React, Tsx)] ''Button.mist.css''
       locked_world =
     (Fulfilled (), locked_world\<lparr>unhandled := [eacces ''open'' ''Button.mist.tsx'']\<rparr>)"
    by (simp add: build_file_def createFiles_def rd c un)
  from c [of "''schema''"] b er show ?thesis by simp
qed

section \<open>The clean-up pass\<close>

text \<open>
  \<open>unlink\<close> asks for the removal of a path only where no file is, so the request
  fails and the files stay as they are, whatever the listing of the directory returns.
\<close>

lemma unlink_keeps_world: "snd (unlink file ext w) = w"
  by (simp add: unlink_def fs_unlink_def Let_def)

lemma unlink_files_keeps_world: "snd (unlink_files fs ext w) = w"
proof (induction fs)
  case Nil
  show ?case by simp
next
  case (Cons f fs)
  obtain p w1 where u: "unlink f ext w = (p, w1)" by (cases "unlink f ext w")
  with unlink_keeps_world [of f ext w] have "w1 = w" by simp
  with u Cons show ?case by (cases "unlink_files fs ext w") simp
qed

lemma cleanup_targets_keeps_world: "snd (cleanup_targets G ts w) = w"
proof (induction ts)
  case Nil
  show ?case by simp
next
  case (Cons te ts)
  obtain target ext where te: "te = (target, ext)" by (cases te)
  let ?fs = "G (''**/*.mist.'' @ ext_text ext) w"
  obtain ps w1 where u: "unlink_files ?fs ext w = (ps, w1)" by (cases "unlink_files ?fs ext w")
  with unlink_files_keeps_world [of ?fs ext w] have "w1 = w" by simp
  with u te Cons show ?case by (cases "cleanup_targets G ts w") simp
qed

lemma cleanup_keeps_world: "snd (cleanup G ts w) = w"
  using cleanup_targets_keeps_world [of G ts w]
  by (cases "cleanup_targets G ts w") (simp add: cleanup_def)

text \<open>
  C1, at an input on which the claim fails: the directory holds \<open>Button.mist.tsx\<close>
  and no \<open>Button.mist.css\<close>, and the target is react. The pattern of the clean-up,
  \<open>**/*.mist..tsx\<close>, selects no file, and the pass ends with the generated file still
  there. With a listing that does return the file, \<open>unlink\<close> rebuilds the path
  \<open>Button.mis.css\<close>, asks for the removal of that path and is rejected; the generated
  file is still there as well.
\<close>

theorem cleanup_leaves_orphan:
  "existsSync ''Button.mist.tsx'' orphan_world
   \<and> \<not> existsSync ''Button.mist.css'' orphan_world
   \<and> globby ''**/*.mist..tsx'' orphan_world = []
   \<and> cleanup globby [(React, Tsx)] orphan_world = (Fulfilled [[]], orphan_world)
   \<and> cleanup (\<lambda>pattern w. [''Button.mist.tsx'']) [(React, Tsx)] orphan_world =
       (Rejected (enoent ''unlink'' ''Button.mis.css''), orphan_world)"
proof -
  have g: "globby ''**/*.mist..tsx'' orphan_world = []"
    by (simp add: globby_def glob_match_def ends_with_def visible_def orphan_world_def
        empty_world_def)
  have e: "existsSync ''Button.mist.tsx'' orphan_world
   \<and> \<not> existsSync ''Button.mist.css'' orphan_world"
    by (simp add: existsSync_def orphan_world_def empty_world_def)
  have c: "cleanup globby [(React, Tsx)] orphan_world = (Fulfilled [[]], orphan_world)"
    by (simp add: cleanup_def g)
  have m: "replace_at_end (unlink_regex Tsx) ''Button.mist.tsx'' ''.css'' = ''Button.mis.css''"
    by (simp add: replace_at_end_def unlink_regex_def atom_of_def lineTerminator_def)
  have n: "\<not> existsSync ''Button.mis.css'' orphan_world"
    and d: "denied orphan_world = []"
    by (simp_all add: existsSync_def orphan_world_def empty_world_def)
  have u: "unlink ''Button.mist.tsx'' Tsx orphan_world =
      (Rejected (enoent ''unlink'' ''Button.mis.css''), orphan_world)"
    by (simp add: unlink_def m n d fs_unlink_def)
  have l: "cleanup (\<lambda>pattern w. [''Button.mist.tsx'']) [(React, Tsx)] orphan_world =
       (Rejected (enoent ''unlink'' ''Button.mis.css''), orphan_world)"
    by (simp add: cleanup_def u)
  from g e c l show ?thesis by simp
qed

end
